theory Spec2Isabelle
  imports Main
begin

section \<open>C strings\<close>

text \<open>
  The classifiers of \<^verbatim>\<open>src/is.cpp\<close> take \<^verbatim>\<open>const char*\<close> arguments. A pointer into a
  NUL-terminated buffer is modelled by the list of the bytes that lie between the pointer
  and the buffer's final terminator: \<^verbatim>\<open>*p\<close> is the head of the list, and the terminator
  when the list is empty; \<^verbatim>\<open>++p\<close> is the tail. A list may hold a NUL byte of its own (a
  \<^verbatim>\<open>std::string\<close> may, and \<^verbatim>\<open>c_str()\<close> hands over its whole buffer): the code then
  stops there, as it does at the final terminator.
\<close>

definition NUL :: char where
  "NUL = CHR 0x00"

definition SPACE :: char where
  "SPACE = CHR 0x20"

definition TAB :: char where
  "TAB = CHR 0x09"

definition deref :: "string \<Rightarrow> char" where
  "deref p = (case p of [] \<Rightarrow> NUL | c # _ \<Rightarrow> c)"

text \<open>The characters of the C string that starts at a pointer: the bytes before the first NUL.\<close>

definition c_chars :: "string \<Rightarrow> string" where
  "c_chars p = takeWhile (\<lambda>c. c \<noteq> NUL) p"

section \<open>The single-string classifiers\<close>

text \<open>\<^verbatim>\<open>while (*s == ' ') ++s;\<close> -- the loop that opens each of the four classifiers.\<close>

fun skip_spaces :: "string \<Rightarrow> string" where
  "skip_spaces [] = []"
| "skip_spaces (c # cs) = (if c = SPACE then skip_spaces cs else c # cs)"

text \<open>
  \<^verbatim>\<open>while (*x) { if (*s == *x) return true; ++x; } return false;\<close> with \<open>c\<close> the value of
  \<^verbatim>\<open>*s\<close>, which the loop does not change.
\<close>

fun scan_x :: "char \<Rightarrow> string \<Rightarrow> bool" where
  "scan_x c [] = False"
| "scan_x c (y # ys) = (if y = NUL then False else if c = y then True else scan_x c ys)"

definition icd9IsASingle :: "string \<Rightarrow> string \<Rightarrow> bool" where
  "icd9IsASingle s x = scan_x (deref (skip_spaces s)) x"

definition icd9IsASingleV :: "string \<Rightarrow> bool" where
  "icd9IsASingleV s =
     (let c = deref (skip_spaces s) in c = CHR ''V'' \<or> c = CHR ''v'')"

definition icd9IsASingleE :: "string \<Rightarrow> bool" where
  "icd9IsASingleE s =
     (let c = deref (skip_spaces s) in c = CHR ''E'' \<or> c = CHR ''e'')"

definition icd9IsASingleVE :: "string \<Rightarrow> bool" where
  "icd9IsASingleVE s =
     (let c = deref (skip_spaces s)
      in c = CHR ''V'' \<or> c = CHR ''E'' \<or> c = CHR ''v'' \<or> c = CHR ''e'')"

section \<open>The batch classifier\<close>

text \<open>
  \<^verbatim>\<open>int len = sv.size();\<close> narrows a \<^verbatim>\<open>size_t\<close> to an \<^verbatim>\<open>int\<close>. With the 32-bit
  two's complement \<^verbatim>\<open>int\<close> of the platforms the package builds on, the value is reduced
  modulo \<open>2 ^ 32\<close> into the range from \<open>- (2 ^ 31)\<close> up to \<open>2 ^ 31 - 1\<close>.
\<close>

definition int_of_size :: "nat \<Rightarrow> int" where
  "int_of_size n =
     (let m = int n mod 2 ^ 32 in if m < 2 ^ 31 then m else m - 2 ^ 32)"

text \<open>
  \<^verbatim>\<open>std::vector<bool> out(len);\<close> converts \<^verbatim>\<open>len\<close> to the unsigned 64-bit size type,
  so that a negative \<^verbatim>\<open>len\<close> asks for \<open>2 ^ 64 + len\<close> elements. The vector packs its
  elements into 64-bit words and allocates \<open>(n + 63) div 64\<close> of them for \<open>n\<close> elements,
  the sum being taken in the size type (the libstdc++ implementation).
  \<^item> For \<^verbatim>\<open>len\<close> from \<open>0\<close> on, the vector holds \<^verbatim>\<open>len\<close> elements, all \<^verbatim>\<open>false\<close>.
  \<^item> For \<^verbatim>\<open>len\<close> from \<open>-63\<close> to \<open>-1\<close> the sum wraps around and the word count is 0:
    nothing is allocated and nothing is thrown. The constructor returns a vector that
    reports \<open>2 ^ 64 + len\<close> elements and owns no storage; none of its elements can be
    read. (A library that first checks the size against its maximum throws instead.)
  \<^item> For \<^verbatim>\<open>len\<close> of \<open>-64\<close> or less the request is for more than \<open>2 ^ 60\<close> bytes, and
    the allocation throws \<^verbatim>\<open>std::bad_alloc\<close> (or the constructor \<^verbatim>\<open>std::length_error\<close>).
\<close>

datatype failure =
  Alloc_error   \<comment> \<open>an exception thrown by the construction of the vector\<close>
| No_storage    \<comment> \<open>a vector without storage, whose elements cannot be read\<close>

definition new_bool_vector :: "int \<Rightarrow> failure + bool list" where
  "new_bool_vector len =
     (if 0 \<le> len then Inr (replicate (nat len) False)
      else if - 64 < len then Inl No_storage
      else Inl Alloc_error)"

text \<open>
  \<^verbatim>\<open>for (int i = 0; i < len; ++i) out[i] = invert != (icd9IsASingle(sv[i].c_str(), x));\<close>
  as a function of the loop variable \<open>i\<close> and of the vector \<open>out\<close> built so far.
\<close>

function icd9IsA_loop ::
  "string list \<Rightarrow> string \<Rightarrow> bool \<Rightarrow> int \<Rightarrow> int \<Rightarrow> bool list \<Rightarrow> bool list" where
  "icd9IsA_loop sv x invert len i out =
     (if i < len
      then icd9IsA_loop sv x invert len (i + 1)
             (out[nat i := (invert \<noteq> icd9IsASingle (sv ! nat i) x)])
      else out)"
  by pat_completeness auto
termination
  by (relation "measure (\<lambda>(sv, x, invert, len, i, out). nat (len - i))") auto

text \<open>
  An exception thrown by the construction of \<^verbatim>\<open>out\<close> leaves \<^verbatim>\<open>icd9IsA\<close>. When the
  construction returns a vector without storage, \<^verbatim>\<open>len\<close> is negative, the body of the
  loop never runs, and that vector is what \<^verbatim>\<open>icd9IsA\<close> returns.
\<close>

definition icd9IsA :: "string list \<Rightarrow> string \<Rightarrow> bool \<Rightarrow> failure + bool list" where
  "icd9IsA sv x invert =
     (let len = int_of_size (length sv)
      in case new_bool_vector len of
           Inl e \<Rightarrow> Inl e
         | Inr out \<Rightarrow> Inr (icd9IsA_loop sv x invert len 0 out))"

section \<open>The contract of the specification\<close>

text \<open>
  The single-string contract in the specification's own words, for comparison with
  \<open>icd9IsASingle\<close>: skip the leading space characters of the string; the answer is
  true when a first remaining character exists and is a member of the candidate set, and
  false when the string is exhausted or that character is not a member.
\<close>

definition classifyFirstChar_spec :: "string \<Rightarrow> char set \<Rightarrow> bool" where
  "classifyFirstChar_spec s X =
     (case dropWhile (\<lambda>c. c = SPACE) s of [] \<Rightarrow> False | c # _ \<Rightarrow> c \<in> X)"

section \<open>Properties of the single-string classifiers\<close>

lemma scan_x_mem: "scan_x c x \<longleftrightarrow> c \<in> set (c_chars x)"
  by (induction x) (auto simp: c_chars_def)

lemma NUL_notin_c_chars: "NUL \<notin> set (c_chars x)"
  unfolding c_chars_def by (induction x) auto

lemma icd9IsASingle_mem: "icd9IsASingle s x \<longleftrightarrow> deref (skip_spaces s) \<in> set (c_chars x)"
  by (simp add: icd9IsASingle_def scan_x_mem)

lemma skip_spaces_replicate: "skip_spaces (replicate n SPACE @ s) = skip_spaces s"
  by (induction n) simp_all

lemma skip_spaces_non_space: "c \<noteq> SPACE \<Longrightarrow> skip_spaces (c # rest) = c # rest"
  by simp

lemma deref_skip_spaces_spec:
  assumes "NUL \<notin> X"
  shows "deref (skip_spaces s) \<in> X \<longleftrightarrow> classifyFirstChar_spec (c_chars s) X"
proof (induction s)
  case Nil
  from assms show ?case
    by (simp add: deref_def c_chars_def classifyFirstChar_spec_def)
next
  case (Cons c cs)
  consider (space) "c = SPACE" | (nul) "c = NUL" | (other) "c \<noteq> SPACE" "c \<noteq> NUL"
    by blast
  then show ?case
  proof cases
    case space
    then have "c \<noteq> NUL" by (simp add: SPACE_def NUL_def)
    with space Cons.IH show ?thesis
      by (simp add: c_chars_def classifyFirstChar_spec_def)
  next
    case nul
    then have "c \<noteq> SPACE" by (simp add: SPACE_def NUL_def)
    with nul assms show ?thesis
      by (simp add: deref_def c_chars_def classifyFirstChar_spec_def)
  next
    case other
    then show ?thesis
      by (simp add: deref_def c_chars_def classifyFirstChar_spec_def)
  qed
qed

lemma icd9IsASingle_spec:
  "icd9IsASingle s x \<longleftrightarrow> classifyFirstChar_spec (c_chars s) (set (c_chars x))"
  by (simp add: icd9IsASingle_mem deref_skip_spaces_spec [OF NUL_notin_c_chars])

text \<open>
  The same holds with all the bytes of \<open>s\<close> in place of its C string: a NUL byte inside
  \<open>s\<close> is a first remaining character that is in no candidate set.
\<close>

lemma deref_skip_spaces_bytes:
  assumes "NUL \<notin> X"
  shows "deref (skip_spaces s) \<in> X \<longleftrightarrow> classifyFirstChar_spec s X"
  using assms by (induction s) (simp_all add: deref_def classifyFirstChar_spec_def)

lemma icd9IsASingle_spec_bytes:
  "icd9IsASingle s x \<longleftrightarrow> classifyFirstChar_spec s (set (c_chars x))"
  by (simp add: icd9IsASingle_mem deref_skip_spaces_bytes [OF NUL_notin_c_chars])

lemma icd9IsASingle_spaces: "\<not> icd9IsASingle (replicate n SPACE) x"
  using skip_spaces_replicate [of n "[]"]
  by (simp add: icd9IsASingle_mem deref_def NUL_notin_c_chars)

text \<open>
  C1. For every string \<open>s\<close> and every non-empty candidate set (the characters of the C
  string \<open>x\<close>), \<^verbatim>\<open>icd9IsASingle\<close> meets the contract of the specification: after the
  leading spaces of \<open>s\<close> it answers true exactly when a first remaining character exists
  and is a member of the set. This is so for \<open>s\<close> read as all its bytes and for \<open>s\<close> read
  as a C string. A string of spaces only, and the empty string, give false.
\<close>

theorem icd9IsASingle_contract:
  assumes "set (c_chars x) \<noteq> {}"
  shows "(icd9IsASingle s x \<longleftrightarrow> classifyFirstChar_spec s (set (c_chars x)))
       \<and> (icd9IsASingle s x \<longleftrightarrow> classifyFirstChar_spec (c_chars s) (set (c_chars x)))
       \<and> \<not> icd9IsASingle (replicate n SPACE) x
       \<and> \<not> icd9IsASingle [] x"
  using icd9IsASingle_spec_bytes [of s x] icd9IsASingle_spec [of s x]
    icd9IsASingle_spaces [of n x] icd9IsASingle_spaces [of 0 x]
  by simp

theorem icd9IsASingle_contract_witness:
  "set (c_chars ''VE'') \<noteq> {}
   \<and> icd9IsASingle ''  E950'' ''VE''
   \<and> classifyFirstChar_spec ''  E950'' (set (c_chars ''VE''))
   \<and> classifyFirstChar_spec (c_chars ''  E950'') (set (c_chars ''VE''))
   \<and> \<not> icd9IsASingle (replicate 3 SPACE) ''VE''
   \<and> \<not> icd9IsASingle [] ''VE''"
proof -
  have ne: "set (c_chars ''VE'') \<noteq> {}"
    by (simp add: c_chars_def NUL_def)
  have yes: "icd9IsASingle ''  E950'' ''VE''"
    by (simp add: icd9IsASingle_def deref_def SPACE_def NUL_def)
  from icd9IsASingle_contract [OF ne, of "''  E950''" 3] ne yes show ?thesis
    by simp
qed

text \<open>
  C3, as the code has it. For every string of the form spaces, then \<open>c\<close>, then any rest,
  where \<open>c\<close> is a member of the target set and is not itself the space character,
  \<^verbatim>\<open>icd9IsASingle\<close> is true whatever the rest is.
\<close>

theorem icd9IsASingle_member_after_spaces:
  assumes "c \<in> set (c_chars x)" and "c \<noteq> SPACE"
  shows "icd9IsASingle (replicate n SPACE @ c # rest) x"
  using assms by (simp add: icd9IsASingle_mem skip_spaces_replicate deref_def)

theorem icd9IsASingle_member_after_spaces_witness:
  "CHR ''V'' \<in> set (c_chars ''VE'') \<and> CHR ''V'' \<noteq> SPACE
   \<and> icd9IsASingle (replicate 2 SPACE @ CHR ''V'' # ''10'') ''VE''"
proof -
  have m: "CHR ''V'' \<in> set (c_chars ''VE'')"
    by (simp add: c_chars_def NUL_def)
  have ns: "CHR ''V'' \<noteq> SPACE"
    by (simp add: SPACE_def)
  from icd9IsASingle_member_after_spaces [OF m ns, of 2 "''10''"] m ns show ?thesis
    by simp
qed

text \<open>
  C3, as the specification words it, fails when the member \<open>c\<close> is the space character:
  with the target set holding a space, the string made of no leading spaces, the member
  \<open>c\<close> (a space) and the rest \<open>427\<close> is classified false, because \<open>c\<close> is skipped with
  the leading spaces and \<open>4\<close> is tested in its place.
\<close>

theorem icd9IsASingle_space_member_counterexample:
  "CHR 0x20 \<in> set (c_chars '' '')
   \<and> replicate 0 SPACE @ CHR 0x20 # ''427'' = '' 427''
   \<and> \<not> icd9IsASingle '' 427'' '' ''"
  by (simp add: icd9IsASingle_def deref_def c_chars_def SPACE_def NUL_def)

text \<open>
  C4. For every string, \<^verbatim>\<open>icd9IsASingleVE\<close> is the disjunction of \<^verbatim>\<open>icd9IsASingleV\<close>
  and \<^verbatim>\<open>icd9IsASingleE\<close>.
\<close>

theorem icd9IsASingleVE_is_V_or_E:
  "icd9IsASingleVE s \<longleftrightarrow> icd9IsASingleV s \<or> icd9IsASingleE s"
  unfolding icd9IsASingleVE_def icd9IsASingleV_def icd9IsASingleE_def Let_def
  by blast

text \<open>
  C6. Each fixed-set classifier agrees, on every string, with \<^verbatim>\<open>icd9IsASingle\<close> applied
  to any C string whose characters are the fixed set: \<open>V, v\<close> for \<^verbatim>\<open>icd9IsASingleV\<close>,
  \<open>E, e\<close> for \<^verbatim>\<open>icd9IsASingleE\<close>, and \<open>V, v, E, e\<close> for \<^verbatim>\<open>icd9IsASingleVE\<close>. The
  space skip is the same function \<open>skip_spaces\<close> in all four.
\<close>

theorem fixed_set_classifiers_generic:
  "(set (c_chars xv) = {CHR ''V'', CHR ''v''} \<longrightarrow> icd9IsASingleV s = icd9IsASingle s xv)
   \<and> (set (c_chars xe) = {CHR ''E'', CHR ''e''} \<longrightarrow> icd9IsASingleE s = icd9IsASingle s xe)
   \<and> (set (c_chars xve) = {CHR ''V'', CHR ''v'', CHR ''E'', CHR ''e''} \<longrightarrow>
        icd9IsASingleVE s = icd9IsASingle s xve)"
  unfolding icd9IsASingle_mem icd9IsASingleV_def icd9IsASingleE_def icd9IsASingleVE_def Let_def
  by auto

theorem fixed_set_classifiers_generic_witness:
  "set (c_chars ''Vv'') = {CHR ''V'', CHR ''v''}
   \<and> set (c_chars ''Ee'') = {CHR ''E'', CHR ''e''}
   \<and> set (c_chars ''VvEe'') = {CHR ''V'', CHR ''v'', CHR ''E'', CHR ''e''}
   \<and> icd9IsASingleV '' e950'' = icd9IsASingle '' e950'' ''Vv''
   \<and> icd9IsASingleE '' e950'' = icd9IsASingle '' e950'' ''Ee''
   \<and> icd9IsASingleVE '' e950'' = icd9IsASingle '' e950'' ''VvEe''"
proof -
  have v: "set (c_chars ''Vv'') = {CHR ''V'', CHR ''v''}"
    by (simp add: c_chars_def NUL_def)
  have e: "set (c_chars ''Ee'') = {CHR ''E'', CHR ''e''}"
    by (simp add: c_chars_def NUL_def)
  have ve: "set (c_chars ''VvEe'') = {CHR ''V'', CHR ''v'', CHR ''E'', CHR ''e''}"
    by (simp add: c_chars_def NUL_def)
  from fixed_set_classifiers_generic [of "''Vv''" "'' e950''" "''Ee''" "''VvEe''"] v e ve
  show ?thesis
    by blast
qed

text \<open>
  C8. Membership is exact character equality, without case folding: on \<open>v10\<close> the generic
  classifier with the set \<open>V\<close> answers false, while \<^verbatim>\<open>icd9IsASingleV\<close>, which names both
  cases, answers true.
\<close>

theorem icd9IsASingle_no_case_folding:
  "\<not> icd9IsASingle ''v10'' ''V'' \<and> icd9IsASingleV ''v10''"
  by (simp add: icd9IsASingle_def icd9IsASingleV_def deref_def SPACE_def NUL_def)

text \<open>
  C10. Only the space character is skipped. A string whose first character is not a
  space is left as it is by the skip, and when that character is not in the target set
  the answer is false, whatever follows it; so a leading tab hides a following \<open>V\<close>
  from the target set \<open>V\<close>.
\<close>

theorem icd9IsASingle_only_space_skipped:
  assumes "c \<noteq> SPACE" and "c \<notin> set (c_chars x)"
  shows "skip_spaces (c # rest) = c # rest \<and> \<not> icd9IsASingle (c # rest) x"
  using assms by (simp add: icd9IsASingle_mem deref_def)

theorem icd9IsASingle_only_space_skipped_witness:
  "TAB \<noteq> SPACE \<and> TAB \<notin> set (c_chars ''V'')
   \<and> skip_spaces (TAB # ''V10'') = TAB # ''V10''
   \<and> \<not> icd9IsASingle (TAB # ''V10'') ''V''"
proof -
  have ns: "TAB \<noteq> SPACE"
    by (simp add: TAB_def SPACE_def)
  have nm: "TAB \<notin> set (c_chars ''V'')"
    by (simp add: c_chars_def TAB_def NUL_def)
  from icd9IsASingle_only_space_skipped [OF ns nm, of "''V10''"] ns nm show ?thesis
    by simp
qed

section \<open>Properties of the batch classifier\<close>

lemma int_of_size_small: "n < 2 ^ 31 \<Longrightarrow> int_of_size n = int n"
  by (simp add: int_of_size_def)

lemma int_of_size_neg_large: "int_of_size n < 0 \<Longrightarrow> 2 ^ 31 \<le> n"
proof (rule ccontr)
  assume neg: "int_of_size n < 0" and "\<not> 2 ^ 31 \<le> n"
  then have "int_of_size n = int n"
    by (simp add: int_of_size_small)
  with neg show False by simp
qed

lemma int_of_size_le: "0 \<le> int_of_size n \<Longrightarrow> nat (int_of_size n) \<le> n"
proof -
  have "int n mod 2 ^ 32 \<le> int n"
    by (rule zmod_le_nonneg_dividend) simp
  then show ?thesis
    unfolding int_of_size_def Let_def by (auto simp: nat_le_iff split: if_splits)
qed

text \<open>
  The loop, started at \<open>i\<close> on a vector of \<open>len\<close> elements, keeps the first \<open>i\<close>
  elements and writes the classification of \<open>sv[i]\<close>, ..., \<open>sv[len - 1]\<close> after them. It
  reads \<open>sv\<close> and writes \<open>out\<close> within bounds only, \<open>len\<close> being at most the size of \<open>sv\<close>
  and the size of \<open>out\<close>.
\<close>

lemma icd9IsA_loop_eq:
  "0 \<le> i \<Longrightarrow> i \<le> len \<Longrightarrow> nat len \<le> length sv \<Longrightarrow> length out = nat len \<Longrightarrow>
   icd9IsA_loop sv x invert len i out =
     take (nat i) out @
     map (\<lambda>s. invert \<noteq> icd9IsASingle s x) (drop (nat i) (take (nat len) sv))"
proof (induction sv x invert len i out rule: icd9IsA_loop.induct)
  case (1 sv x invert len i out)
  show ?case
  proof (cases "i < len")
    case True
    let ?out = "out[nat i := (invert \<noteq> icd9IsASingle (sv ! nat i) x)]"
    have n: "nat (i + 1) = Suc (nat i)"
      using "1.prems" by simp
    have lt: "nat i < nat len"
      using True "1.prems" by simp
    have IH: "icd9IsA_loop sv x invert len (i + 1) ?out =
        take (nat (i + 1)) ?out @
        map (\<lambda>s. invert \<noteq> icd9IsASingle s x) (drop (nat (i + 1)) (take (nat len) sv))"
      using "1.IH" [OF True] "1.prems" True by simp
    have d: "drop (nat i) (take (nat len) sv) =
        sv ! nat i # drop (Suc (nat i)) (take (nat len) sv)"
    proof -
      have "nat i < length (take (nat len) sv)"
        using lt "1.prems" by simp
      then have "drop (nat i) (take (nat len) sv) =
          take (nat len) sv ! nat i # drop (Suc (nat i)) (take (nat len) sv)"
        by (rule Cons_nth_drop_Suc [symmetric])
      then show ?thesis using lt by simp
    qed
    have t: "take (Suc (nat i)) ?out =
        take (nat i) out @ [invert \<noteq> icd9IsASingle (sv ! nat i) x]"
      using lt "1.prems" by (simp add: take_Suc_conv_app_nth)
    have "icd9IsA_loop sv x invert len i out = icd9IsA_loop sv x invert len (i + 1) ?out"
      by (subst icd9IsA_loop.simps) (simp add: True)
    also note IH
    also have "take (nat (i + 1)) ?out @
        map (\<lambda>s. invert \<noteq> icd9IsASingle s x) (drop (nat (i + 1)) (take (nat len) sv)) =
      take (nat i) out @
        map (\<lambda>s. invert \<noteq> icd9IsASingle s x) (drop (nat i) (take (nat len) sv))"
      unfolding n d t by simp
    finally show ?thesis .
  next
    case False
    with "1.prems" have "i = len" by simp
    then show ?thesis
      using "1.prems" by (subst icd9IsA_loop.simps) simp
  qed
qed

lemma new_bool_vector_boundaries:
  "new_bool_vector (- 1) = Inl No_storage"
  "new_bool_vector (- 63) = Inl No_storage"
  "new_bool_vector (- 64) = Inl Alloc_error"
  "new_bool_vector 0 = Inr []"
  by (simp_all add: new_bool_vector_def)

lemma icd9IsA_eq:
  "icd9IsA sv x invert =
     (if 0 \<le> int_of_size (length sv)
      then Inr (map (\<lambda>s. invert \<noteq> icd9IsASingle s x)
                  (take (nat (int_of_size (length sv))) sv))
      else if - 64 < int_of_size (length sv) then Inl No_storage
      else Inl Alloc_error)"
  using icd9IsA_loop_eq [of 0 "int_of_size (length sv)" sv
      "replicate (nat (int_of_size (length sv))) False" x invert]
    int_of_size_le [of "length sv"]
  by (simp add: icd9IsA_def new_bool_vector_def)

text \<open>
  On a sequence of fewer than \<open>2 ^ 31\<close> strings the batch classifier returns, and its
  result has one element for each string, in order: the \<open>i\<close>-th is
  \<^verbatim>\<open>invert != icd9IsASingle(sv[i], x)\<close>.
\<close>

lemma icd9IsA_small:
  "length sv < 2 ^ 31 \<Longrightarrow>
   icd9IsA sv x invert = Inr (map (\<lambda>s. invert \<noteq> icd9IsASingle s x) sv)"
  by (simp add: icd9IsA_eq int_of_size_small)

lemma icd9IsA_small_nth:
  assumes "length sv < 2 ^ 31"
  shows "\<exists>out. icd9IsA sv x invert = Inr out \<and> length out = length sv
     \<and> (\<forall>i<length sv. out ! i = (invert \<noteq> icd9IsASingle (sv ! i) x))"
  by (simp add: icd9IsA_small [OF assms])

lemma icd9IsA_Nil: "icd9IsA [] x invert = Inr []"
  by (simp add: icd9IsA_small)

lemma icd9IsA_Inl_large: "icd9IsA sv x invert = Inl e \<Longrightarrow> 2 ^ 31 \<le> length sv"
proof (rule int_of_size_neg_large)
  assume "icd9IsA sv x invert = Inl e"
  then show "int_of_size (length sv) < 0"
    by (simp add: icd9IsA_eq split: if_splits)
qed

text \<open>
  Whether a sequence of booleans is returned, and which failure happens when none is,
  depends on the length of \<open>sv\<close> alone, not on \<open>x\<close> or \<^verbatim>\<open>invert\<close>.
\<close>

lemma icd9IsA_failure_by_length:
  "icd9IsA sv x invert = Inl e \<longleftrightarrow> icd9IsA sv x' invert' = Inl e"
  by (simp add: icd9IsA_eq)

text \<open>
  On a sequence of fewer than \<open>2 ^ 31\<close> strings the results for the two values of
  \<^verbatim>\<open>invert\<close> have the length of the sequence and are each other's negation at every
  index; with an empty candidate set and \<^verbatim>\<open>invert = false\<close> every element is false.
\<close>

lemma icd9IsA_invert_small:
  assumes "length v < 2 ^ 31"
  shows "\<exists>outF outT. icd9IsA v x False = Inr outF \<and> icd9IsA v x True = Inr outT
     \<and> length outF = length v \<and> length outT = length v
     \<and> (\<forall>i<length v. outT ! i = (\<not> outF ! i))"
  by (simp add: icd9IsA_small [OF assms])

lemma icd9IsA_returned_negated:
  "icd9IsA v x False = Inr outF \<Longrightarrow> icd9IsA v x True = Inr (map Not outF)"
  by (auto simp: icd9IsA_eq split: if_splits)

lemma icd9IsASingle_empty_x: "\<not> icd9IsASingle s []"
  by (simp add: icd9IsASingle_def)

lemma icd9IsA_empty_x_small:
  "length sv < 2 ^ 31 \<Longrightarrow> icd9IsA sv [] False = Inr (replicate (length sv) False)"
  by (simp add: icd9IsA_small icd9IsASingle_empty_x map_replicate_const)

lemma icd9IsA_empty_x_returned:
  "icd9IsA sv [] False = Inr out \<Longrightarrow> \<forall>b\<in>set out. \<not> b"
  by (auto simp: icd9IsA_eq icd9IsASingle_empty_x split: if_splits)

text \<open>
  C2. The batch classifier is to return one boolean for each string of \<open>sv\<close>. On a
  sequence of \<open>2 ^ 31\<close> strings \<^verbatim>\<open>int len = sv.size()\<close> is negative and the construction
  of \<^verbatim>\<open>out\<close> throws; on a sequence of \<open>2 ^ 32 + 1\<close> strings \<^verbatim>\<open>len\<close> is 1 and a single
  boolean is returned.
\<close>

theorem icd9IsA_length_narrowed:
  "icd9IsA (replicate (2 ^ 31) []) ''V'' False = Inl Alloc_error
   \<and> icd9IsA (replicate (2 ^ 32 + 1) []) ''V'' False = Inr [False]"
  by (simp add: icd9IsA_eq int_of_size_def icd9IsASingle_mem deref_def NUL_notin_c_chars)

text \<open>
  C5. The result for \<^verbatim>\<open>invert = true\<close> is to be the negation of the result for
  \<^verbatim>\<open>invert = false\<close> at every index, for every sequence. On a sequence of
  \<open>2 ^ 32 - 1\<close> strings \<^verbatim>\<open>int len = sv.size()\<close> is \<open>-1\<close>, and for either value of
  \<^verbatim>\<open>invert\<close> the batch classifier hands back a vector without storage: there is no
  element at any index to be the negation of another.
\<close>

theorem icd9IsA_invert_no_storage:
  "int_of_size (length (replicate (2 ^ 32 - 1) ([] :: string))) = - 1
   \<and> icd9IsA (replicate (2 ^ 32 - 1) []) ''V'' True = Inl No_storage
   \<and> icd9IsA (replicate (2 ^ 32 - 1) []) ''V'' False = Inl No_storage"
  by (simp add: icd9IsA_eq int_of_size_def)

text \<open>
  C7. On the sequence \<open>V10\<close>, \<open> E950\<close> (with its leading space), \<open>427\<close>, with the target
  set \<open>V\<close> and \<^verbatim>\<open>invert = false\<close>, the batch classifier returns true, false, false.
\<close>

theorem icd9IsA_example:
  "icd9IsA [''V10'', '' E950'', ''427''] ''V'' False = Inr [True, False, False]"
  by code_simp

text \<open>
  C9. With an empty candidate set the single-string classifier answers false on every
  string, without raising an error. The batch classifier with an empty set and
  \<^verbatim>\<open>invert = false\<close> is then to return false at every position; on a sequence of
  \<open>2 ^ 32 - 1\<close> strings it hands back a vector without storage instead, and on one of
  \<open>2 ^ 32 - 64\<close> strings it throws.
\<close>

theorem icd9IsA_empty_set_no_storage:
  "\<not> icd9IsASingle s []
   \<and> icd9IsA (replicate (2 ^ 32 - 1) []) [] False = Inl No_storage
   \<and> icd9IsA (replicate (2 ^ 32 - 64) []) [] False = Inl Alloc_error"
  by (simp add: icd9IsASingle_def icd9IsA_eq int_of_size_def)

end
